theory Spec2Isabelle
  imports Main
begin

section \<open>Strings of the host language\<close>

text \<open>
  A Python \<open>str\<close> is a sequence of code points. It is modelled as a \<open>string\<close> whose
  characters are the code points U+0000 to U+00FF, one \<open>char\<close> per code point. The
  character classes below are those of the Python 3 built-ins on this range. A string
  with a code point beyond U+00FF has no counterpart here, and nothing below speaks of
  one.
\<close>

definition code :: "char \<Rightarrow> nat" where
  "code c = of_char c"

text \<open>\<open>str.isspace\<close> of one character: the characters removed by \<open>strip()\<close> and
  separating the fields of \<open>split()\<close>.\<close>

definition isspace :: "char \<Rightarrow> bool" where
  "isspace c = ((9 \<le> code c \<and> code c \<le> 13) \<or> (28 \<le> code c \<and> code c \<le> 32)
     \<or> code c = 133 \<or> code c = 160)"

text \<open>The class \<open>\w\<close> of \<open>re\<close> on a \<open>str\<close> pattern: alphanumeric characters and the
  underscore.\<close>

definition isword :: "char \<Rightarrow> bool" where
  "isword c = ((48 \<le> code c \<and> code c \<le> 57) \<or> (65 \<le> code c \<and> code c \<le> 90) \<or> code c = 95
     \<or> (97 \<le> code c \<and> code c \<le> 122) \<or> code c = 170 \<or> code c = 178 \<or> code c = 179
     \<or> code c = 181 \<or> code c = 185 \<or> code c = 186 \<or> (188 \<le> code c \<and> code c \<le> 190)
     \<or> (192 \<le> code c \<and> code c \<le> 214) \<or> (216 \<le> code c \<and> code c \<le> 246)
     \<or> (248 \<le> code c \<and> code c \<le> 255))"

text \<open>The ten characters \<open>0\<close> to \<open>9\<close>.\<close>

definition isdecimal_char :: "char \<Rightarrow> bool" where
  "isdecimal_char c = (48 \<le> code c \<and> code c \<le> 57)"

text \<open>The superscripts two, three and one (U+00B2, U+00B3, U+00B9): \<open>str.isdigit\<close>
  holds of them and \<open>int()\<close> raises \<open>ValueError\<close> on a string that has one.\<close>

definition is_superscript_digit :: "char \<Rightarrow> bool" where
  "is_superscript_digit c = (code c = 178 \<or> code c = 179 \<or> code c = 185)"

text \<open>\<open>str.isdigit\<close> of one character of this range: the characters \<open>0\<close> to \<open>9\<close>
  and the three superscripts.\<close>

definition isdigit_char :: "char \<Rightarrow> bool" where
  "isdigit_char c = (isdecimal_char c \<or> is_superscript_digit c)"

definition lower_char :: "char \<Rightarrow> char" where
  "lower_char c = (if (65 \<le> code c \<and> code c \<le> 90) \<or> (192 \<le> code c \<and> code c \<le> 214)
       \<or> (216 \<le> code c \<and> code c \<le> 222)
     then char_of (code c + 32) else c)"

definition lower :: "string \<Rightarrow> string" where
  "lower s = map lower_char s"

definition strip :: "string \<Rightarrow> string" where
  "strip s = rev (dropWhile isspace (rev (dropWhile isspace s)))"

text \<open>\<open>str.split()\<close> without arguments: the maximal runs of non-whitespace
  characters. The second argument is the field being read.\<close>

fun split_ws :: "string \<Rightarrow> string \<Rightarrow> string list" where
  "split_ws [] w = (if w = [] then [] else [w])"
| "split_ws (c # cs) w =
     (if isspace c then (if w = [] then split_ws cs [] else w # split_ws cs [])
      else split_ws cs (w @ [c]))"

definition split :: "string \<Rightarrow> string list" where
  "split s = split_ws s []"

definition isdigit :: "string \<Rightarrow> bool" where
  "isdigit s = (s \<noteq> [] \<and> list_all isdigit_char s)"

text \<open>The value \<open>int()\<close> returns on a string of the characters \<open>0\<close> to \<open>9\<close>, read
  left to right.\<close>

definition digits_value :: "string \<Rightarrow> int" where
  "digits_value s = foldl (\<lambda>n c. 10 * n + (int (code c) - 48)) 0 s"

text \<open>The order of \<open>str\<close>: lexicographic on code points.\<close>

fun str_less :: "string \<Rightarrow> string \<Rightarrow> bool" where
  "str_less [] [] = False"
| "str_less [] (y # ys) = True"
| "str_less (x # xs) [] = False"
| "str_less (x # xs) (y # ys) =
     (if code x < code y then True else if code y < code x then False else str_less xs ys)"

section \<open>Nodes, records and errors\<close>

text \<open>The class \<open>Node\<close>: an operator, two optional children and an optional value.\<close>

datatype node = Node (operator: string) (left: "node option") (right: "node option")
  (node_value: "string option")

text \<open>A value of a data record: an \<open>int\<close> or a \<open>str\<close>.\<close>

datatype pyval = IntV int | StrV string

type_synonym record_data = "string \<rightharpoonup> pyval"

text \<open>
  One constructor for each way the two functions fail. The source raises \<open>ValueError\<close>
  with a message at each of its own sites; the constructor keeps the part of the message
  that varies.
  \<^item> \<open>EmptyRuleError\<close>: "Rule string is empty or only contains whitespace."
  \<^item> \<open>IncompleteComparisonError t\<close>: "Incomplete comparison detected before logical
    operator 't'."
  \<^item> \<open>InsufficientOperandsError t\<close>: "Insufficient expressions in stack for logical
    operator 't'."
  \<^item> \<open>MalformedComparisonError t\<close>: "Invalid comparison structure: 't'"
  \<^item> \<open>NoExpressionError\<close>: "Invalid rule structure: No valid expressions were found."
  \<^item> \<open>UnreducedStackError n\<close>: "Invalid rule structure: Final stack contains n items
    instead of 1. ..."
  \<^item> \<open>UnsupportedCombinatorError\<close>: "Unsupported operator for combining rules. ..."
  \<^item> \<open>MissingAttributeError a\<close>: "Data is missing required attribute 'a'."
  \<^item> \<open>InvalidValueError v\<close>: "Invalid comparison value: 'v'"
  \<^item> \<open>UnsupportedOperatorError p\<close>: "Unsupported operator 'p'."
  \<^item> \<open>UnsupportedLogicalOperatorError p\<close>: "Unsupported logical operator 'p'."
  The remaining ones are raised by the interpreter:
  \<^item> \<open>TypeMismatchError\<close>: the \<open>TypeError\<close> of an ordering comparison between an \<open>int\<close>
    and a \<open>str\<close>;
  \<^item> \<open>UnpackError n\<close>: the \<open>ValueError\<close> of unpacking \<open>n\<close> fields into three names;
  \<^item> \<open>AttributeError\<close>: \<open>split\<close> called on the value \<open>None\<close>;
  \<^item> \<open>IndexError\<close>: the first element of an empty list.
\<close>

datatype error =
    EmptyRuleError
  | IncompleteComparisonError string
  | InsufficientOperandsError string
  | MalformedComparisonError string
  | NoExpressionError
  | UnreducedStackError nat
  | UnsupportedCombinatorError
  | MissingAttributeError string
  | InvalidValueError string
  | UnsupportedOperatorError string
  | UnsupportedLogicalOperatorError string
  | TypeMismatchError
  | UnpackError nat
  | AttributeError
  | IndexError

section \<open>The two regular expressions\<close>

text \<open>\<open>\b\<close>: exactly one of the characters before and after the position is a word
  character; the ends of the string count as non-word.\<close>

definition isword_opt :: "char option \<Rightarrow> bool" where
  "isword_opt p = (case p of None \<Rightarrow> False | Some c \<Rightarrow> isword c)"

definition boundary :: "char option \<Rightarrow> string \<Rightarrow> bool" where
  "boundary prev rest = (isword_opt prev \<noteq> isword_opt (case rest of [] \<Rightarrow> None | c # _ \<Rightarrow> Some c))"

text \<open>
  \<open>re.split(r"(\bAND\b|\bOR\b)", s)\<close>: the text between the matches and, the group being
  a capturing one, the matches themselves, in order. \<open>prev\<close> is the character before the
  current position and \<open>piece\<close> the text read since the last match.
\<close>

fun split_logical :: "char option \<Rightarrow> string \<Rightarrow> string \<Rightarrow> string list" where
  "split_logical prev piece [] = [piece]"
| "split_logical prev piece (c # cs) =
     (if boundary prev (c # cs) \<and> take 3 (c # cs) = ''AND''
         \<and> boundary (Some CHR ''D'') (drop 3 (c # cs))
      then piece # ''AND'' # split_logical (Some CHR ''D'') [] (drop 2 cs)
      else if boundary prev (c # cs) \<and> take 2 (c # cs) = ''OR''
         \<and> boundary (Some CHR ''R'') (drop 2 (c # cs))
      then piece # ''OR'' # split_logical (Some CHR ''R'') [] (drop 1 cs)
      else split_logical (Some c) (piece @ [c]) cs)"

text \<open>\<open>re.split(r"(==|!=|>=|<=|>|<)", token)\<close>: the alternatives are tried in this
  order at each position.\<close>

fun split_comparison :: "string \<Rightarrow> string \<Rightarrow> string list" where
  "split_comparison piece [] = [piece]"
| "split_comparison piece (c # cs) =
     (if take 2 (c # cs) = ''=='' then piece # ''=='' # split_comparison [] (drop 1 cs)
      else if take 2 (c # cs) = ''!='' then piece # ''!='' # split_comparison [] (drop 1 cs)
      else if take 2 (c # cs) = ''>='' then piece # ''>='' # split_comparison [] (drop 1 cs)
      else if take 2 (c # cs) = ''<='' then piece # ''<='' # split_comparison [] (drop 1 cs)
      else if c = CHR ''>'' then piece # ''>'' # split_comparison [] cs
      else if c = CHR ''<'' then piece # ''<'' # split_comparison [] cs
      else split_comparison (piece @ [c]) cs)"

section \<open>create_rule\<close>

text \<open>The comparison leaf pushed for the parts \<open>attribute\<close>, \<open>operator\<close>, \<open>value\<close>.\<close>

definition compare_node :: "string \<Rightarrow> string \<Rightarrow> string \<Rightarrow> node" where
  "compare_node attribute opr val =
     Node ''COMPARE'' None None (Some (lower attribute @ '' '' @ opr @ '' '' @ val))"

text \<open>
  The body of the loop over the tokens, on the pair of \<open>stack\<close> and
  \<open>current_comparison\<close>. The stack is a Python list: \<open>append\<close> adds at the end and
  \<open>pop\<close> removes the last element.
\<close>

definition pending :: "string \<Rightarrow> node list \<times> string list \<Rightarrow> error + node list \<times> string list" where
  "pending token st = (case st of (stack, current_comparison) \<Rightarrow>
     if length current_comparison = 3
     then Inr (stack @ [compare_node (current_comparison ! 0) (current_comparison ! 1)
                          (current_comparison ! 2)], [])
     else if length current_comparison > 0 then Inl (IncompleteComparisonError token)
     else Inr (stack, current_comparison))"

definition reduce :: "string \<Rightarrow> node list \<times> string list \<Rightarrow> error + node list \<times> string list" where
  "reduce token st = (case st of (stack, current_comparison) \<Rightarrow>
     if length stack < 2 then Inl (InsufficientOperandsError token)
     else let right = last stack; stack1 = butlast stack;
              left = last stack1; stack2 = butlast stack1
          in Inr (stack2 @ [Node token (Some left) (Some right) None], current_comparison))"

definition push_comparison :: "string \<Rightarrow> node list \<times> string list \<Rightarrow> error + node list \<times> string list" where
  "push_comparison token st = (case st of (stack, current_comparison) \<Rightarrow>
     let comparison_parts = split_comparison [] token in
     if length comparison_parts \<noteq> 3 then Inl (MalformedComparisonError token)
     else let attribute = strip (comparison_parts ! 0);
              opr = strip (comparison_parts ! 1);
              val = strip (comparison_parts ! 2);
              current = [attribute, opr, val]
          in if length current = 3 then Inr (stack @ [compare_node attribute opr val], [])
             else Inr (stack, current))"

definition process_token :: "node list \<times> string list \<Rightarrow> string \<Rightarrow> error + node list \<times> string list" where
  "process_token st token =
     (if token = ''AND'' \<or> token = ''OR''
      then (case pending token st of Inl e \<Rightarrow> Inl e | Inr st1 \<Rightarrow> reduce token st1)
      else push_comparison token st)"

fun process_tokens :: "string list \<Rightarrow> node list \<times> string list \<Rightarrow> error + node list \<times> string list" where
  "process_tokens [] st = Inr st"
| "process_tokens (token # tokens) st =
     (case process_token st token of Inl e \<Rightarrow> Inl e | Inr st1 \<Rightarrow> process_tokens tokens st1)"

definition tokenize :: "string \<Rightarrow> string list" where
  "tokenize rule_string =
     map strip (filter (\<lambda>token. strip token \<noteq> []) (split_logical None [] rule_string))"

definition create_rule :: "string \<Rightarrow> error + node" where
  "create_rule rule_string =
     (let s = strip rule_string in
      if s = [] then Inl EmptyRuleError
      else case process_tokens (tokenize s) ([], []) of
             Inl e \<Rightarrow> Inl e
           | Inr (stack, current_comparison) \<Rightarrow>
               if length stack = 1 then Inr (stack ! 0)
               else if length stack = 0 then Inl NoExpressionError
               else Inl (UnreducedStackError (length stack)))"

section \<open>combine_rules\<close>

text \<open>The list comprehension: the rules are compiled in order and the first failure
  ends it.\<close>

fun create_rules :: "string list \<Rightarrow> error + node list" where
  "create_rules [] = Inr []"
| "create_rules (rule # rules) =
     (case create_rule rule of
        Inl e \<Rightarrow> Inl e
      | Inr ast \<Rightarrow> (case create_rules rules of Inl e \<Rightarrow> Inl e | Inr asts \<Rightarrow> Inr (ast # asts)))"

definition combine_rules :: "string list \<Rightarrow> string \<Rightarrow> error + node" where
  "combine_rules rules opr =
     (if \<not> (opr = ''AND'' \<or> opr = ''OR'') then Inl UnsupportedCombinatorError
      else case create_rules rules of
             Inl e \<Rightarrow> Inl e
           | Inr ast_nodes \<Rightarrow>
               (case ast_nodes of
                  [] \<Rightarrow> Inl IndexError
                | first # others \<Rightarrow>
                    if length ast_nodes = 1 then Inr first
                    else Inr (foldl (\<lambda>combined_ast ast. Node opr (Some combined_ast) (Some ast) None)
                                first others)))"

section \<open>evaluate_rule\<close>

text \<open>
  The literal of a leaf: \<open>int(value) if value.isdigit() else str(value)\<close>. On a string
  that \<open>isdigit\<close> accepts, \<open>int\<close> raises \<open>ValueError\<close> when the string has a superscript
  digit, which the source turns into its own error; otherwise, on this range, the string
  is made of \<open>0\<close> to \<open>9\<close> and \<open>int\<close> returns its value. The decimal digits of other
  scripts, which \<open>isdigit\<close> and \<open>int\<close> accept as well, lie beyond U+00FF. The
  interpreter's optional limit on the length of the digit string is not modelled:
  integers are unbounded.
\<close>

definition coerce :: "string \<Rightarrow> error + pyval" where
  "coerce val =
     (if isdigit val
      then (if list_ex is_superscript_digit val then Inl (InvalidValueError val)
            else Inr (IntV (digits_value val)))
      else Inr (StrV val))"

text \<open>\<open>==\<close> between an \<open>int\<close> and a \<open>str\<close> is false; an ordering between them raises
  \<open>TypeError\<close>.\<close>

fun py_less :: "pyval \<Rightarrow> pyval \<Rightarrow> error + bool" where
  "py_less (IntV a) (IntV b) = Inr (a < b)"
| "py_less (StrV a) (StrV b) = Inr (str_less a b)"
| "py_less _ _ = Inl TypeMismatchError"

fun py_le :: "pyval \<Rightarrow> pyval \<Rightarrow> error + bool" where
  "py_le (IntV a) (IntV b) = Inr (a \<le> b)"
| "py_le (StrV a) (StrV b) = Inr (a = b \<or> str_less a b)"
| "py_le _ _ = Inl TypeMismatchError"

definition compare :: "string \<Rightarrow> pyval \<Rightarrow> pyval \<Rightarrow> error + bool" where
  "compare opr x v =
     (if opr = ''=='' then Inr (x = v)
      else if opr = ''!='' then Inr (x \<noteq> v)
      else if opr = ''>'' then py_less v x
      else if opr = ''<'' then py_less x v
      else if opr = ''>='' then py_le v x
      else if opr = ''<='' then py_le x v
      else Inl (UnsupportedOperatorError opr))"

definition evaluate_compare :: "string option \<Rightarrow> record_data \<Rightarrow> error + bool" where
  "evaluate_compare v data =
     (case v of
        None \<Rightarrow> Inl AttributeError
      | Some text \<Rightarrow>
          (case split text of
             [attribute0, opr, val] \<Rightarrow>
               (let attribute = lower attribute0 in
                case data attribute of
                  None \<Rightarrow> Inl (MissingAttributeError attribute)
                | Some x \<Rightarrow>
                    (case coerce val of
                       Inl e \<Rightarrow> Inl e
                     | Inr lit \<Rightarrow> compare opr x lit))
           | fields \<Rightarrow> Inl (UnpackError (length fields))))"

fun evaluate_rule :: "node option \<Rightarrow> record_data \<Rightarrow> error + bool" where
  "evaluate_rule None data = Inr False"
| "evaluate_rule (Some (Node opr l r v)) data =
     (if opr = ''COMPARE'' then evaluate_compare v data
      else if opr = ''AND'' then
        (case evaluate_rule l data of
           Inl e \<Rightarrow> Inl e
         | Inr b \<Rightarrow> if b then evaluate_rule r data else Inr False)
      else if opr = ''OR'' then
        (case evaluate_rule l data of
           Inl e \<Rightarrow> Inl e
         | Inr b \<Rightarrow> if b then Inr True else evaluate_rule r data)
      else Inl (UnsupportedLogicalOperatorError opr))"

text \<open>Both values are \<open>int\<close> or both are \<open>str\<close>.\<close>

fun same_type :: "pyval \<Rightarrow> pyval \<Rightarrow> bool" where
  "same_type (IntV a) (IntV b) = True"
| "same_type (StrV a) (StrV b) = True"
| "same_type _ _ = False"

text \<open>The four ordering comparators.\<close>

definition is_ordering :: "string \<Rightarrow> bool" where
  "is_ordering opr = (opr = ''>'' \<or> opr = ''<'' \<or> opr = ''>='' \<or> opr = ''<='')"

section \<open>Predicates of the statements\<close>

text \<open>The tokens and operators the two regular expressions capture.\<close>

definition is_logical :: "string \<Rightarrow> bool" where
  "is_logical token = (token = ''AND'' \<or> token = ''OR'')"

definition is_comparator :: "string \<Rightarrow> bool" where
  "is_comparator opr = (opr = ''=='' \<or> opr = ''!='' \<or> opr = ''>='' \<or> opr = ''<=''
     \<or> opr = ''>'' \<or> opr = ''<'')"

text \<open>The shape of a result of \<open>re.split\<close> with a capturing group: pieces of text
  with one captured separator between two of them.\<close>

fun alternating :: "(string \<Rightarrow> bool) \<Rightarrow> string list \<Rightarrow> bool" where
  "alternating sep [] = False"
| "alternating sep [piece] = True"
| "alternating sep (piece # s # rest) = (sep s \<and> alternating sep rest)"

text \<open>No two tokens next to each other are both comparisons.\<close>

fun separated :: "string list \<Rightarrow> bool" where
  "separated [] = True"
| "separated [t] = True"
| "separated (t # u # ts) = ((is_logical t \<or> is_logical u) \<and> separated (u # ts))"

section \<open>The pending-comparison buffer\<close>

text \<open>Every step of the loop that starts with an empty buffer ends with an empty
  buffer: a comparison token pushes its leaf and resets it at once.\<close>

lemma process_token_buffer:
  "process_token (stack, []) token = Inr (stack', cur') \<Longrightarrow> cur' = []"
  by (auto simp: process_token_def pending_def reduce_def push_comparison_def Let_def
      split: if_splits sum.splits)

lemma process_tokens_buffer:
  "process_tokens tokens (stack, []) = Inr (stack', cur') \<Longrightarrow> cur' = []"
proof (induction tokens arbitrary: stack)
  case Nil
  then show ?case by simp
next
  case (Cons token tokens)
  from Cons.prems obtain st1 where
    st1: "process_token (stack, []) token = Inr st1" and
    rest: "process_tokens tokens st1 = Inr (stack', cur')"
    by (auto split: sum.splits)
  obtain stack1 cur1 where eq: "st1 = (stack1, cur1)" by (cases st1)
  with st1 have "cur1 = []" using process_token_buffer by blast
  with rest eq show ?case using Cons.IH by blast
qed

lemma process_token_not_incomplete:
  "process_token (stack, []) token \<noteq> Inl (IncompleteComparisonError t)"
  by (auto simp: process_token_def pending_def reduce_def push_comparison_def Let_def
      split: if_splits sum.splits)

lemma process_tokens_not_incomplete:
  "process_tokens tokens (stack, []) \<noteq> Inl (IncompleteComparisonError t)"
proof (induction tokens arbitrary: stack)
  case Nil
  then show ?case by simp
next
  case (Cons token tokens)
  show ?case
  proof (cases "process_token (stack, []) token")
    case (Inl e)
    then show ?thesis using process_token_not_incomplete [of stack token t] by auto
  next
    case (Inr st1)
    obtain stack1 cur1 where eq: "st1 = (stack1, cur1)" by (cases st1)
    with Inr have "cur1 = []" using process_token_buffer by blast
    with Inr eq show ?thesis using Cons.IH [of stack1] by simp
  qed
qed

text \<open>
  Claim C10. In \<open>create_rule\<close> the branch raising "Incomplete comparison detected before
  logical operator" is never taken: no rule string makes \<open>create_rule\<close> fail with that
  error, and at every token of the token list of a rule string the loop reaches, the
  buffer \<open>current_comparison\<close> is empty.
\<close>

theorem incomplete_comparison_unreachable:
  "create_rule rule_string \<noteq> Inl (IncompleteComparisonError t) \<and>
   (tokenize (strip rule_string) = before @ token # after \<longrightarrow>
    process_tokens before ([], []) = Inr (stack, current_comparison) \<longrightarrow>
    current_comparison = [])"
proof
  show "create_rule rule_string \<noteq> Inl (IncompleteComparisonError t)"
    using process_tokens_not_incomplete [of "tokenize (strip rule_string)" "[]" t]
    by (auto simp: create_rule_def Let_def split: sum.splits if_splits)
next
  show "tokenize (strip rule_string) = before @ token # after \<longrightarrow>
    process_tokens before ([], []) = Inr (stack, current_comparison) \<longrightarrow>
    current_comparison = []"
    using process_tokens_buffer by blast
qed

theorem incomplete_comparison_unreachable_witness:
  "tokenize (strip ''a > 1 AND b < 2'') = [''a > 1''] @ ''AND'' # [''b < 2''] \<and>
   process_tokens [''a > 1''] ([], []) = Inr ([compare_node ''a'' ''>'' ''1''], []) \<and>
   create_rule ''a > 1 AND b < 2'' \<noteq> Inl (IncompleteComparisonError ''AND'')"
proof -
  have a: "tokenize (strip ''a > 1 AND b < 2'') = [''a > 1''] @ ''AND'' # [''b < 2'']"
    by code_simp
  have b: "process_tokens [''a > 1''] ([], []) = Inr ([compare_node ''a'' ''>'' ''1''], [])"
    by code_simp
  show ?thesis
    using a b incomplete_comparison_unreachable [of "''a > 1 AND b < 2''" "''AND''"
        "[''a > 1'']" "''AND''" "[''b < 2'']" "[compare_node ''a'' ''>'' ''1'']" "[]"]
    by simp
qed

section \<open>The step on a logical operator\<close>

text \<open>
  Claim C5. In every state the loop reaches, on a token \<open>AND\<close> or \<open>OR\<close>: when the stack
  ends with the two sub-trees \<open>l\<close> and \<open>r\<close>, both are popped (\<open>r\<close> first) and the node
  with the token as operator, \<open>l\<close> as left and \<open>r\<close> as right child is pushed; when the
  stack holds fewer than two sub-trees the step fails with \<open>InsufficientOperandsError\<close>
  carrying the token.
\<close>

theorem logical_token_reduces:
  assumes "process_tokens tokens ([], []) = Inr (stack, current_comparison)"
    and "token = ''AND'' \<or> token = ''OR''"
  shows "(stack = rest @ [l, r] \<longrightarrow>
            process_token (stack, current_comparison) token
              = Inr (rest @ [Node token (Some l) (Some r) None], [])) \<and>
         (length stack < 2 \<longrightarrow>
            process_token (stack, current_comparison) token
              = Inl (InsufficientOperandsError token))"
proof -
  have "current_comparison = []" using assms(1) process_tokens_buffer by blast
  then show ?thesis using assms(2)
    by (auto simp: process_token_def pending_def reduce_def Let_def butlast_append)
qed

theorem logical_token_reduces_witness:
  "process_tokens [''a > 1'', ''b < 2''] ([], [])
     = Inr ([] @ [compare_node ''a'' ''>'' ''1'', compare_node ''b'' ''<'' ''2''], []) \<and>
   process_token ([] @ [compare_node ''a'' ''>'' ''1'', compare_node ''b'' ''<'' ''2''], []) ''AND''
     = Inr ([] @ [Node ''AND'' (Some (compare_node ''a'' ''>'' ''1''))
                  (Some (compare_node ''b'' ''<'' ''2'')) None], []) \<and>
   process_tokens [''a > 1''] ([], []) = Inr ([compare_node ''a'' ''>'' ''1''], []) \<and>
   length [compare_node ''a'' ''>'' ''1''] < 2 \<and>
   process_token ([compare_node ''a'' ''>'' ''1''], []) ''OR''
     = Inl (InsufficientOperandsError ''OR'')"
proof -
  have a: "process_tokens [''a > 1'', ''b < 2''] ([], [])
     = Inr ([] @ [compare_node ''a'' ''>'' ''1'', compare_node ''b'' ''<'' ''2''], [])"
    by code_simp
  have b: "process_tokens [''a > 1''] ([], []) = Inr ([compare_node ''a'' ''>'' ''1''], [])"
    by code_simp
  show ?thesis
    using a b
      logical_token_reduces [OF a, of "''AND''" "[]" "compare_node ''a'' ''>'' ''1''"
        "compare_node ''b'' ''<'' ''2''"]
      logical_token_reduces [OF b, of "''OR''" "[]" "compare_node ''a'' ''>'' ''1''"
        "compare_node ''b'' ''<'' ''2''"]
    by simp
qed

section \<open>Comparison leaves\<close>

lemma split_ws_nonempty: "[] \<notin> set (split_ws s w)"
  by (induction s arbitrary: w) auto

lemma evaluate_leaf:
  assumes "split body = [attribute, opr, lit]" and "data (lower attribute) = Some x"
  shows "evaluate_rule (Some (Node ''COMPARE'' l r (Some body))) data =
           (case coerce lit of Inl e \<Rightarrow> Inl e | Inr y \<Rightarrow> compare opr x y)"
  using assms by (simp add: evaluate_compare_def)

lemma compare_mismatch:
  "is_ordering opr \<Longrightarrow> \<not> same_type x y \<Longrightarrow> compare opr x y = Inl TypeMismatchError"
  by (cases x; cases y) (auto simp: compare_def is_ordering_def)

text \<open>
  Claim C7, as amended. At a comparison leaf whose text splits into attribute, operator
  and literal, with the attribute in the record, the literal is read from the text at
  evaluation: a literal made of the digits \<open>0\<close> to \<open>9\<close> only is compared as the integer
  it denotes; a literal that \<open>str.isdigit\<close> rejects is compared as a string; a literal
  that \<open>str.isdigit\<close> accepts and that has a superscript digit (U+00B9, U+00B2, U+00B3)
  fails with the invalid-value error.
\<close>

theorem literal_coercion:
  assumes "split body = [attribute, opr, lit]" and "data (lower attribute) = Some x"
  shows "(list_all isdecimal_char lit \<longrightarrow>
            evaluate_rule (Some (Node ''COMPARE'' l r (Some body))) data
              = compare opr x (IntV (digits_value lit))) \<and>
         (\<not> isdigit lit \<longrightarrow>
            evaluate_rule (Some (Node ''COMPARE'' l r (Some body))) data
              = compare opr x (StrV lit)) \<and>
         (isdigit lit \<and> list_ex is_superscript_digit lit \<longrightarrow>
            evaluate_rule (Some (Node ''COMPARE'' l r (Some body))) data
              = Inl (InvalidValueError lit))"
proof -
  have "lit \<in> set (split body)" using assms(1) by simp
  then have ne: "lit \<noteq> []" using split_ws_nonempty [of body "[]"] by (auto simp: split_def)
  have ev: "evaluate_rule (Some (Node ''COMPARE'' l r (Some body))) data =
      (case coerce lit of Inl e \<Rightarrow> Inl e | Inr y \<Rightarrow> compare opr x y)"
    using assms by (rule evaluate_leaf)
  have c1: "coerce lit = Inr (IntV (digits_value lit))" if "list_all isdecimal_char lit"
  proof -
    from that have "list_all isdigit_char lit"
      by (simp add: list_all_iff isdigit_char_def)
    moreover from that have "\<not> list_ex is_superscript_digit lit"
      by (auto simp: list_all_iff list_ex_iff isdecimal_char_def is_superscript_digit_def)
    ultimately show ?thesis using ne by (simp add: coerce_def isdigit_def)
  qed
  have c2: "coerce lit = Inr (StrV lit)" if "\<not> isdigit lit"
    using that by (simp add: coerce_def)
  have c3: "coerce lit = Inl (InvalidValueError lit)"
    if "isdigit lit \<and> list_ex is_superscript_digit lit"
    using that by (simp add: coerce_def)
  show ?thesis using ev c1 c2 c3 by simp
qed

theorem literal_coercion_witness:
  "split ''Age >= 007'' = [''Age'', ''>='', ''007''] \<and>
   [''age'' \<mapsto> IntV 7] (lower ''Age'') = Some (IntV 7) \<and>
   list_all isdecimal_char ''007'' \<and>
   evaluate_rule (Some (Node ''COMPARE'' None None (Some ''Age >= 007''))) [''age'' \<mapsto> IntV 7]
     = Inr True \<and>
   split ''department == sales'' = [''department'', ''=='', ''sales''] \<and>
   [''department'' \<mapsto> StrV ''sales''] (lower ''department'') = Some (StrV ''sales'') \<and>
   \<not> isdigit ''sales'' \<and>
   evaluate_rule (Some (Node ''COMPARE'' None None (Some ''department == sales'')))
     [''department'' \<mapsto> StrV ''sales''] = Inr True \<and>
   split (''age == '' @ [CHR 0xB2]) = [''age'', ''=='', [CHR 0xB2]] \<and>
   [''age'' \<mapsto> IntV 2] (lower ''age'') = Some (IntV 2) \<and>
   isdigit [CHR 0xB2] \<and> list_ex is_superscript_digit [CHR 0xB2] \<and>
   evaluate_rule (Some (Node ''COMPARE'' None None (Some (''age == '' @ [CHR 0xB2]))))
     [''age'' \<mapsto> IntV 2] = Inl (InvalidValueError [CHR 0xB2])"
proof -
  have a: "split ''Age >= 007'' = [''Age'', ''>='', ''007'']" by code_simp
  have b: "[''age'' \<mapsto> IntV 7] (lower ''Age'') = Some (IntV 7)" by code_simp
  have c: "split ''department == sales'' = [''department'', ''=='', ''sales'']" by code_simp
  have d: "[''department'' \<mapsto> StrV ''sales''] (lower ''department'') = Some (StrV ''sales'')"
    by code_simp
  have e: "list_all isdecimal_char ''007''" by code_simp
  have f: "compare ''>='' (IntV 7) (IntV (digits_value ''007'')) = Inr True" by code_simp
  have h: "\<not> isdigit ''sales''" by code_simp
  have i: "compare ''=='' (StrV ''sales'') (StrV ''sales'') = Inr True" by code_simp
  have j: "split (''age == '' @ [CHR 0xB2]) = [''age'', ''=='', [CHR 0xB2]]" by code_simp
  have k: "[''age'' \<mapsto> IntV 2] (lower ''age'') = Some (IntV 2)" by code_simp
  have m: "isdigit [CHR 0xB2]" by code_simp
  have n: "list_ex is_superscript_digit [CHR 0xB2]" by code_simp
  have r1: "evaluate_rule (Some (Node ''COMPARE'' None None (Some ''Age >= 007'')))
      [''age'' \<mapsto> IntV 7] = Inr True"
    by (rule trans [OF mp [OF conjunct1 [OF literal_coercion [of "''Age >= 007''" "''Age''"
        "''>=''" "''007''" "[''age'' \<mapsto> IntV 7]" "IntV 7" None None, OF a b]] e] f])
  have r2: "evaluate_rule (Some (Node ''COMPARE'' None None (Some ''department == sales'')))
      [''department'' \<mapsto> StrV ''sales''] = Inr True"
    by (rule trans [OF mp [OF conjunct1 [OF conjunct2 [OF literal_coercion
        [of "''department == sales''" "''department''" "''==''" "''sales''"
          "[''department'' \<mapsto> StrV ''sales'']" "StrV ''sales''" None None, OF c d]]] h] i])
  have r3: "evaluate_rule (Some (Node ''COMPARE'' None None (Some (''age == '' @ [CHR 0xB2]))))
      [''age'' \<mapsto> IntV 2] = Inl (InvalidValueError [CHR 0xB2])"
    by (rule mp [OF conjunct2 [OF conjunct2 [OF literal_coercion
        [of "''age == '' @ [CHR 0xB2]" "''age''" "''==''" "[CHR 0xB2]"
          "[''age'' \<mapsto> IntV 2]" "IntV 2" None None, OF j k]]] conjI [OF m n]])
  show ?thesis by (intro conjI a b e r1 c d h r2 j k m n r3)
qed

text \<open>
  Claim C7 as stated fails for the literal made of the superscript two (U+00B2): it is
  not a string of decimal digits, the equality with the same string would hold, and
  the evaluation fails.
\<close>

theorem literal_coercion_counterexample:
  "create_rule (''age == '' @ [CHR 0xB2])
     = Inr (Node ''COMPARE'' None None (Some (''age == '' @ [CHR 0xB2]))) \<and>
   \<not> list_all isdecimal_char [CHR 0xB2] \<and>
   compare ''=='' (StrV [CHR 0xB2]) (StrV [CHR 0xB2]) = Inr True \<and>
   evaluate_rule (Some (Node ''COMPARE'' None None (Some (''age == '' @ [CHR 0xB2]))))
     [''age'' \<mapsto> StrV [CHR 0xB2]] = Inl (InvalidValueError [CHR 0xB2])"
  by code_simp

text \<open>
  Claim C9. At a comparison leaf with an ordering comparator, when the record's value
  for the attribute and the coerced literal are an integer and a string (either way),
  the evaluation fails with the type error of the comparison.
\<close>

theorem ordering_type_mismatch:
  assumes "split body = [attribute, opr, lit]" and "is_ordering opr"
    and "data (lower attribute) = Some x" and "coerce lit = Inr y"
    and "\<not> same_type x y"
  shows "evaluate_rule (Some (Node ''COMPARE'' l r (Some body))) data = Inl TypeMismatchError"
  using assms evaluate_leaf [of body attribute opr lit data x l r]
    compare_mismatch [of opr x y]
  by simp

theorem ordering_type_mismatch_witness:
  "split ''age > abc'' = [''age'', ''>'', ''abc''] \<and> is_ordering ''>'' \<and>
   [''age'' \<mapsto> IntV 25] (lower ''age'') = Some (IntV 25) \<and>
   coerce ''abc'' = Inr (StrV ''abc'') \<and> \<not> same_type (IntV 25) (StrV ''abc'') \<and>
   evaluate_rule (Some (Node ''COMPARE'' None None (Some ''age > abc''))) [''age'' \<mapsto> IntV 25]
     = Inl TypeMismatchError"
proof -
  have a: "split ''age > abc'' = [''age'', ''>'', ''abc'']" by code_simp
  have b: "is_ordering ''>''" by code_simp
  have c: "[''age'' \<mapsto> IntV 25] (lower ''age'') = Some (IntV 25)" by code_simp
  have d: "coerce ''abc'' = Inr (StrV ''abc'')" by code_simp
  have e: "\<not> same_type (IntV 25) (StrV ''abc'')" by simp
  show ?thesis
    using a b c d e ordering_type_mismatch [of "''age > abc''" "''age''" "''>''" "''abc''"
          "[''age'' \<mapsto> IntV 25]" "IntV 25" "StrV ''abc''" None None]
    by simp
qed

section \<open>Logical nodes\<close>

text \<open>
  Claim C8. An \<open>AND\<close> node whose left child evaluates to false evaluates to false, and
  an \<open>OR\<close> node whose left child evaluates to true evaluates to true, whatever the right
  child is: the right child is not evaluated, so its failure cannot surface.
\<close>

theorem short_circuit:
  "(evaluate_rule l data = Inr False \<longrightarrow>
      evaluate_rule (Some (Node ''AND'' l r v)) data = Inr False) \<and>
   (evaluate_rule l data = Inr True \<longrightarrow>
      evaluate_rule (Some (Node ''OR'' l r v)) data = Inr True)"
  by simp

theorem short_circuit_witness:
  "evaluate_rule (Some (compare_node ''age'' ''>'' ''30'')) [''age'' \<mapsto> IntV 25] = Inr False \<and>
   evaluate_rule (Some (compare_node ''income'' ''>'' ''0'')) [''age'' \<mapsto> IntV 25]
     = Inl (MissingAttributeError ''income'') \<and>
   evaluate_rule (Some (Node ''AND'' (Some (compare_node ''age'' ''>'' ''30''))
       (Some (compare_node ''income'' ''>'' ''0'')) None)) [''age'' \<mapsto> IntV 25] = Inr False \<and>
   evaluate_rule (Some (compare_node ''age'' ''<'' ''30'')) [''age'' \<mapsto> IntV 25] = Inr True \<and>
   evaluate_rule (Some (Node ''OR'' (Some (compare_node ''age'' ''<'' ''30''))
       (Some (compare_node ''income'' ''>'' ''0'')) None)) [''age'' \<mapsto> IntV 25] = Inr True"
proof -
  have a: "evaluate_rule (Some (compare_node ''age'' ''>'' ''30'')) [''age'' \<mapsto> IntV 25]
      = Inr False" by code_simp
  have b: "evaluate_rule (Some (compare_node ''income'' ''>'' ''0'')) [''age'' \<mapsto> IntV 25]
     = Inl (MissingAttributeError ''income'')" by code_simp
  have c: "evaluate_rule (Some (compare_node ''age'' ''<'' ''30'')) [''age'' \<mapsto> IntV 25]
      = Inr True" by code_simp
  show ?thesis
    using a b c
      short_circuit [of "Some (compare_node ''age'' ''>'' ''30'')" "[''age'' \<mapsto> IntV 25]"
        "Some (compare_node ''income'' ''>'' ''0'')" None]
      short_circuit [of "Some (compare_node ''age'' ''<'' ''30'')" "[''age'' \<mapsto> IntV 25]"
        "Some (compare_node ''income'' ''>'' ''0'')" None]
    by simp
qed

section \<open>Results of create_rule\<close>

lemma process_token_not_empty_rule:
  "process_token st token \<noteq> Inl EmptyRuleError"
  by (cases st)
    (auto simp: process_token_def pending_def reduce_def push_comparison_def Let_def
      split: if_splits sum.splits)

lemma process_tokens_not_empty_rule:
  "process_tokens tokens st \<noteq> Inl EmptyRuleError"
  by (induction tokens arbitrary: st)
    (auto simp: process_token_not_empty_rule split: sum.splits)

text \<open>
  Claim C6. \<open>create_rule\<close> fails with \<open>EmptyRuleError\<close> exactly when the stripped rule
  string is empty; the empty string and the string of three spaces are such inputs.
\<close>

theorem empty_rule_error:
  "(create_rule rule_string = Inl EmptyRuleError) = (strip rule_string = []) \<and>
   create_rule '''' = Inl EmptyRuleError \<and> create_rule ''   '' = Inl EmptyRuleError"
proof -
  have "(create_rule rule_string = Inl EmptyRuleError) = (strip rule_string = [])"
    using process_tokens_not_empty_rule [of "tokenize (strip rule_string)" "([], [])"]
    by (auto simp: create_rule_def Let_def split: sum.splits if_splits)
  moreover have "create_rule '''' = Inl EmptyRuleError" by code_simp
  moreover have "create_rule ''   '' = Inl EmptyRuleError" by code_simp
  ultimately show ?thesis by simp
qed

text \<open>
  Claim C4 as stated fails: on two comparisons with no operator between them the result
  is not an \<open>UnreducedStackError\<close>, whatever the number it carries.
\<close>

theorem two_comparisons_counterexample:
  "create_rule ''age > 30 age < 40'' \<notin> range (Inl \<circ> UnreducedStackError)"
proof -
  have "create_rule ''age > 30 age < 40'' = Inl (MalformedComparisonError ''age > 30 age < 40'')"
    by code_simp
  then show ?thesis by auto
qed

text \<open>
  Claim C4, as amended. The rule string \<open>age > 30 age < 40\<close> is one token; it splits
  into five parts on its two comparison operators, and \<open>create_rule\<close> fails with
  \<open>MalformedComparisonError\<close> carrying the token.
\<close>

theorem two_comparisons_malformed:
  "tokenize (strip ''age > 30 age < 40'') = [''age > 30 age < 40''] \<and>
   split_comparison [] ''age > 30 age < 40'' = [''age '', ''>'', '' 30 age '', ''<'', '' 40''] \<and>
   create_rule ''age > 30 age < 40'' = Inl (MalformedComparisonError ''age > 30 age < 40'')"
  by code_simp

text \<open>
  Claim C1 at its own example. The chain \<open>a > 1 AND b < 2 OR c == 3\<close> has five tokens;
  after the first the stack holds one leaf, and at the token \<open>AND\<close> the loop fails with
  \<open>InsufficientOperandsError\<close>: no tree is returned.
\<close>

theorem infix_chain_fails:
  "tokenize (strip ''a > 1 AND b < 2 OR c == 3'')
     = [''a > 1'', ''AND'', ''b < 2'', ''OR'', ''c == 3''] \<and>
   process_tokens [''a > 1''] ([], []) = Inr ([compare_node ''a'' ''>'' ''1''], []) \<and>
   create_rule ''a > 1 AND b < 2 OR c == 3'' = Inl (InsufficientOperandsError ''AND'')"
  by code_simp

text \<open>
  Claim C2 at its own example. \<open>combine_rules\<close> on the two rules returns the \<open>AND\<close> node
  of the two leaves, which evaluates to true on a record with age 20 and income 5;
  \<open>create_rule\<close> on the joined rule string returns no tree.
\<close>

theorem combine_and_compile_differ:
  "combine_rules [''age > 18'', ''income > 0''] ''AND''
     = Inr (Node ''AND'' (Some (Node ''COMPARE'' None None (Some ''age > 18'')))
              (Some (Node ''COMPARE'' None None (Some ''income > 0''))) None) \<and>
   evaluate_rule (Some (Node ''AND'' (Some (Node ''COMPARE'' None None (Some ''age > 18'')))
              (Some (Node ''COMPARE'' None None (Some ''income > 0''))) None))
     [''age'' \<mapsto> IntV 20, ''income'' \<mapsto> IntV 5] = Inr True \<and>
   create_rule ''age > 18 AND income > 0'' = Inl (InsufficientOperandsError ''AND'')"
  by code_simp

section \<open>The shape of the token list\<close>

text \<open>
  Between two comparison tokens of a rule string there is always a logical operator, and
  a logical operator met with fewer than two sub-trees on the stack fails. So a run of
  the loop that succeeds has read no token, or one comparison token only.
\<close>

lemma split_logical_alternating: "alternating is_logical (split_logical prev piece s)"
  by (induction prev piece s rule: split_logical.induct) (auto simp: is_logical_def)

lemma split_comparison_alternating: "alternating is_comparator (split_comparison piece s)"
  by (induction piece s rule: split_comparison.induct) (auto simp: is_comparator_def)

lemma strip_logical: "is_logical k \<Longrightarrow> strip k = k"
  by (auto simp: is_logical_def strip_def isspace_def code_def)

lemma strip_comparator: "is_comparator k \<Longrightarrow> strip k = k"
  by (auto simp: is_comparator_def strip_def isspace_def code_def)

lemma separated_Cons_logical: "is_logical k \<Longrightarrow> separated ts \<Longrightarrow> separated (k # ts)"
  by (cases ts) auto

lemma separated_tokens:
  "alternating is_logical xs \<Longrightarrow> separated (map strip (filter (\<lambda>token. strip token \<noteq> []) xs))"
proof (induction is_logical xs rule: alternating.induct)
  case 1
  then show ?case by simp
next
  case (2 piece)
  then show ?case by simp
next
  case (3 piece s rest)
  then have k: "is_logical s" and rest: "separated (map strip (filter (\<lambda>token. strip token \<noteq> []) rest))"
    by auto
  have sk: "strip s = s" using k by (rule strip_logical)
  have "s \<noteq> []" using k by (auto simp: is_logical_def)
  with sk k rest show ?case by (simp add: separated_Cons_logical)
qed

lemma separated_tokenize: "separated (tokenize s)"
  unfolding tokenize_def by (rule separated_tokens) (rule split_logical_alternating)

lemma logical_token_fails:
  "is_logical token \<Longrightarrow> length stack < 2 \<Longrightarrow>
     process_token (stack, []) token = Inl (InsufficientOperandsError token)"
  by (simp add: process_token_def pending_def reduce_def is_logical_def)

lemma comparison_token_pushes:
  assumes "\<not> is_logical token" and "process_token (stack, []) token = Inr st"
  shows "\<exists>pre opr post. split_comparison [] token = [pre, opr, post] \<and>
           st = (stack @ [compare_node (strip pre) (strip opr) (strip post)], [])"
proof -
  from assms have len: "length (split_comparison [] token) = 3"
    by (auto simp: process_token_def push_comparison_def is_logical_def Let_def split: if_splits)
  then obtain pre opr post where parts: "split_comparison [] token = [pre, opr, post]"
    by (auto simp: length_Suc_conv numeral_3_eq_3)
  with assms show ?thesis
    by (auto simp: process_token_def push_comparison_def is_logical_def Let_def)
qed

lemma separated_run:
  assumes "separated tokens" and "process_tokens tokens ([], []) = Inr (stack, cur)"
  shows "(tokens = [] \<and> stack = []) \<or>
         (\<exists>token pre opr post. tokens = [token] \<and> split_comparison [] token = [pre, opr, post]
            \<and> stack = [compare_node (strip pre) (strip opr) (strip post)])"
proof (cases tokens)
  case Nil
  with assms show ?thesis by simp
next
  case (Cons token rest)
  from assms(2) Cons obtain st1 where
    st1: "process_token ([], []) token = Inr st1" and
    run: "process_tokens rest st1 = Inr (stack, cur)"
    by (auto split: sum.splits)
  have nl: "\<not> is_logical token"
    using st1 logical_token_fails [of token "[]"] by auto
  from comparison_token_pushes [OF nl st1] obtain pre opr post where
    parts: "split_comparison [] token = [pre, opr, post]" and
    st1_eq: "st1 = ([] @ [compare_node (strip pre) (strip opr) (strip post)], [])"
    by blast
  show ?thesis
  proof (cases rest)
    case Nil
    with Cons run st1_eq parts show ?thesis by simp
  next
    case (Cons u us)
    with assms(1) \<open>tokens = token # rest\<close> nl have "is_logical u" by simp
    then have "process_token st1 u = Inl (InsufficientOperandsError u)"
      using st1_eq logical_token_fails [of u "[compare_node (strip pre) (strip opr) (strip post)]"]
      by simp
    with run Cons show ?thesis by simp
  qed
qed

text \<open>Every tree \<open>create_rule\<close> returns is the leaf of its single token.\<close>

lemma create_rule_returns_leaf:
  assumes "create_rule rule_string = Inr t"
  shows "\<exists>token pre opr post. tokenize (strip rule_string) = [token]
           \<and> split_comparison [] token = [pre, opr, post]
           \<and> is_comparator opr
           \<and> t = compare_node (strip pre) opr (strip post)"
proof -
  from assms obtain stack cur where
    run: "process_tokens (tokenize (strip rule_string)) ([], []) = Inr (stack, cur)" and
    one: "length stack = 1" and t: "t = stack ! 0"
    by (auto simp: create_rule_def Let_def split: if_splits sum.splits)
  from separated_run [OF separated_tokenize run] one obtain token pre opr post where
    tok: "tokenize (strip rule_string) = [token]" and
    parts: "split_comparison [] token = [pre, opr, post]" and
    stack: "stack = [compare_node (strip pre) (strip opr) (strip post)]"
    by auto
  have "alternating is_comparator [pre, opr, post]"
    using split_comparison_alternating [of "[]" token] parts by simp
  then have cmp: "is_comparator opr" by simp
  with tok parts stack t show ?thesis by (simp add: strip_comparator)
qed

lemma create_rule_never_logical:
  "create_rule rule_string = Inr t \<Longrightarrow> operator t = ''COMPARE'' \<and> left t = None \<and> right t = None"
  using create_rule_returns_leaf [of rule_string t] by (auto simp: compare_node_def)

section \<open>A compiled leaf read back\<close>

text \<open>
  Claim C3 at a failing input. The rule \<open>department == human resources\<close> compiles:
  \<open>create_rule\<close> joins attribute, operator and literal with spaces into the text of a
  leaf. \<open>evaluate_rule\<close> splits that text on whitespace into four fields and cannot
  unpack them into three names: it fails on every record, also on one that holds the
  attribute \<open>department\<close>.
\<close>

theorem compiled_leaf_unreadable:
  "create_rule ''department == human resources''
     = Inr (Node ''COMPARE'' None None (Some ''department == human resources'')) \<and>
   split ''department == human resources'' = [''department'', ''=='', ''human'', ''resources''] \<and>
   evaluate_rule (Some (Node ''COMPARE'' None None (Some ''department == human resources'')))
     data = Inl (UnpackError 4)"
proof -
  have a: "create_rule ''department == human resources''
     = Inr (Node ''COMPARE'' None None (Some ''department == human resources''))"
    by code_simp
  have b: "split ''department == human resources''
      = [''department'', ''=='', ''human'', ''resources'']"
    by code_simp
  have c: "evaluate_rule (Some (Node ''COMPARE'' None None
      (Some ''department == human resources''))) data = Inl (UnpackError 4)"
    by (simp add: evaluate_compare_def b)
  show ?thesis by (intro conjI a b c)
qed

end
